theory Spec2Isabelle
  imports Complex_Main "HOL-Library.Word"
begin

section \<open>Arrays and images\<close>

text \<open>
  A numpy array of up to three dimensions: \<open>shape\<close> is the array's shape tuple
  (\<open>[h, w]\<close> for a two-dimensional grayscale array, \<open>[h, w, c]\<close> for a colour array) and
  \<open>pixels\<close> holds the data row by row, each pixel being the list of its channel values
  (a single value for a two-dimensional array). An image is an array of unsigned bytes
  (\<open>np.uint8\<close>); the intermediate arrays of \<open>astype(np.float32)\<close> hold reals, so the
  rounding of 32-bit floats is not part of the model.
\<close>

type_synonym u8 = "8 word"

record 'a ndarray =
  shape :: "nat list"
  pixels :: "'a list list list"

type_synonym image = "u8 ndarray"

definition chan_count :: "nat list \<Rightarrow> nat" where
  "chan_count rest = (case rest of [] \<Rightarrow> 1 | c # _ \<Rightarrow> c)"

text \<open>The values of the record that are arrays: the data agrees with the shape.\<close>

definition wf_image :: "'a ndarray \<Rightarrow> bool" where
  "wf_image I =
     (case shape I of
        h # w # rest \<Rightarrow>
          length rest \<le> 1 \<and> length (pixels I) = h \<and>
          list_all (\<lambda>row. length row = w \<and> list_all (\<lambda>p. length p = chan_count rest) row)
            (pixels I)
      | _ \<Rightarrow> False)"

text \<open>Elementwise operations: \<open>astype\<close>, arithmetic with a scalar, \<open>np.clip\<close>.\<close>

definition map_array :: "('a \<Rightarrow> 'b) \<Rightarrow> 'a ndarray \<Rightarrow> 'b ndarray" where
  "map_array f A = \<lparr>shape = shape A, pixels = map (map (map f)) (pixels A)\<rparr>"

text \<open>Elementwise combination of two arrays of one shape.\<close>

definition zip_array :: "('a \<Rightarrow> 'b \<Rightarrow> 'c) \<Rightarrow> 'a ndarray \<Rightarrow> 'b ndarray \<Rightarrow> 'c ndarray" where
  "zip_array f A B =
     \<lparr>shape = shape A,
      pixels = map2 (map2 (map2 f)) (pixels A) (pixels B)\<rparr>"

text \<open>Python's \<open>int(x)\<close> on a float, and the C cast behind \<open>astype(np.uint8)\<close>: both truncate
  towards zero.\<close>

definition py_int :: "real \<Rightarrow> int" where
  "py_int x = (if 0 \<le> x then \<lfloor>x\<rfloor> else \<lceil>x\<rceil>)"

definition astype_float :: "image \<Rightarrow> real ndarray" where
  "astype_float I = map_array (\<lambda>p. real (unat p)) I"

definition astype_uint8 :: "real ndarray \<Rightarrow> image" where
  "astype_uint8 A = map_array (\<lambda>v. word_of_int (py_int v)) A"

definition np_clip :: "real ndarray \<Rightarrow> real \<Rightarrow> real \<Rightarrow> real ndarray" where
  "np_clip A lo hi = map_array (\<lambda>v. min (max v lo) hi) A"

text \<open>\<open>np.clip(a, 0, 255).astype(np.uint8)\<close> on an array that already holds bytes.\<close>

definition clip_uint8 :: "image \<Rightarrow> image" where
  "clip_uint8 I = map_array (\<lambda>p. word_of_nat (min (max (unat p) 0) 255)) I"

datatype exn =
    ValueError string
  | IndexError string
  | ZeroDivisionError string
  | Cv2Error string

text \<open>\<open>str(e)\<close> of an exception: its message.\<close>

fun str_of :: "exn \<Rightarrow> string" where
  "str_of (ValueError m) = m"
| "str_of (IndexError m) = m"
| "str_of (ZeroDivisionError m) = m"
| "str_of (Cv2Error m) = m"

subsection \<open>Python slices\<close>

text \<open>
  \<open>xs[start:stop]\<close> on a sequence of length \<open>n\<close>: a negative bound counts from the
  end, and both bounds are clipped to \<open>0..n\<close>.
\<close>

definition slice_index :: "nat \<Rightarrow> int \<Rightarrow> nat" where
  "slice_index n i = (if i < 0 then nat (max 0 (i + int n)) else min (nat i) n)"

definition py_slice :: "'a list \<Rightarrow> int \<Rightarrow> int \<Rightarrow> 'a list" where
  "py_slice xs start stop =
     take (slice_index (length xs) stop - slice_index (length xs) start)
       (drop (slice_index (length xs) start) xs)"

definition slice_len :: "nat \<Rightarrow> int \<Rightarrow> int \<Rightarrow> nat" where
  "slice_len n start stop = slice_index n stop - slice_index n start"

text \<open>\<open>image[r0:r1, c0:c1]\<close> on an array of at least two dimensions.\<close>

definition slice2 :: "'a ndarray \<Rightarrow> int \<Rightarrow> int \<Rightarrow> int \<Rightarrow> int \<Rightarrow> 'a ndarray" where
  "slice2 I r0 r1 c0 c1 =
     \<lparr>shape = (case shape I of
                 h # w # rest \<Rightarrow> slice_len h r0 r1 # slice_len w c0 c1 # rest
               | s \<Rightarrow> s),
      pixels = map (\<lambda>row. py_slice row c0 c1) (py_slice (pixels I) r0 r1)\<rparr>"

section \<open>Operation catalog: \<open>ImageProcessor\<close>\<close>

subsection \<open>\<open>crop_image\<close>\<close>

text \<open>
  \<open>h, w = image.shape[:2]\<close> raises \<open>ValueError\<close> on an array of fewer than two
  dimensions; then the corner is clamped into the image, the size is clamped from above,
  and the rectangle is sliced out.
\<close>

definition crop_image :: "image \<Rightarrow> int \<Rightarrow> int \<Rightarrow> int \<Rightarrow> int \<Rightarrow> exn + image" where
  "crop_image I x y width height =
     (case shape I of
        h # w # rest \<Rightarrow>
          (let x1 = max 0 (min x (int w));
               y1 = max 0 (min y (int h));
               width1 = min width (int w - x1);
               height1 = min height (int h - y1)
           in Inr (slice2 I y1 (y1 + height1) x1 (x1 + width1)))
      | [_] \<Rightarrow> Inl (ValueError ''not enough values to unpack (expected 2, got 1)'')
      | [] \<Rightarrow> Inl (ValueError ''not enough values to unpack (expected 2, got 0)''))"

subsection \<open>The vision library\<close>

text \<open>
  \<open>cv2.flip\<close> and \<open>cv2.rotate\<close> move pixels without computing on them; they follow the
  library's documentation: \<open>flip\<close> with a positive code mirrors every row (around the
  vertical axis), with code 0 it reverses the order of the rows, with a negative code it
  does both; \<open>rotate\<close> turns the image by a quarter or a half turn, so that a quarter turn
  of an \<open>h \<times> w\<close> image is a \<open>w \<times> h\<close> image.
\<close>

definition cv2_flip :: "'a ndarray \<Rightarrow> int \<Rightarrow> 'a ndarray" where
  "cv2_flip I flipCode =
     (if 0 < flipCode then I\<lparr>pixels := map rev (pixels I)\<rparr>
      else if flipCode = 0 then I\<lparr>pixels := rev (pixels I)\<rparr>
      else I\<lparr>pixels := rev (map rev (pixels I))\<rparr>)"

datatype RotateFlags = ROTATE_90_CLOCKWISE | ROTATE_180 | ROTATE_90_COUNTERCLOCKWISE

text \<open>Column \<open>j\<close> of a list of rows, read from the first row to the last.\<close>

definition column :: "'a list list \<Rightarrow> nat \<Rightarrow> 'a list" where
  "column rows j = map (\<lambda>row. row ! j) rows"

definition cv2_rotate :: "'a ndarray \<Rightarrow> RotateFlags \<Rightarrow> 'a ndarray" where
  "cv2_rotate I rotateCode =
     (case shape I of
        h # w # rest \<Rightarrow>
          (case rotateCode of
             ROTATE_90_CLOCKWISE \<Rightarrow>
               \<lparr>shape = w # h # rest,
                pixels = map (\<lambda>j. column (rev (pixels I)) j) [0..<w]\<rparr>
           | ROTATE_180 \<Rightarrow>
               \<lparr>shape = h # w # rest, pixels = rev (map rev (pixels I))\<rparr>
           | ROTATE_90_COUNTERCLOCKWISE \<Rightarrow>
               \<lparr>shape = w # h # rest,
                pixels = map (\<lambda>j. column (pixels I) (w - 1 - j)) [0..<w]\<rparr>)
      | _ \<Rightarrow> I)"

text \<open>
  The affine warp of an arbitrary rotation, after the library's documentation.
  \<open>getRotationMatrix2D(center, angle, scale)\<close> is the matrix
  \<open>[[a, b, (1 - a) cx - b cy], [- b, a, b cx + (1 - a) cy]]\<close> with \<open>a = scale cos angle\<close>,
  \<open>b = scale sin angle\<close>, the angle in degrees. \<open>warpAffine(src, M, dsize)\<close> with its
  default flags fills an image of size \<open>dsize\<close> with \<open>dst(x, y) = src(M\<inverse> (x, y))\<close>, read by
  bilinear interpolation, a position outside the source counting as 0. The interpolation
  is over the reals here: the library's rounding of the source position to 1/32 of a
  pixel is not modelled.
\<close>

record affine =
  m00 :: real
  m01 :: real
  m02 :: real
  m10 :: real
  m11 :: real
  m12 :: real

definition cv2_getRotationMatrix2D :: "real \<times> real \<Rightarrow> real \<Rightarrow> real \<Rightarrow> affine" where
  "cv2_getRotationMatrix2D center angle scale =
     (let a = scale * cos (angle * pi / 180);
          b = scale * sin (angle * pi / 180);
          cx = fst center;
          cy = snd center
      in \<lparr>m00 = a, m01 = b, m02 = (1 - a) * cx - b * cy,
          m10 = - b, m11 = a, m12 = b * cx + (1 - a) * cy\<rparr>)"

text \<open>The value of channel \<open>k\<close> at row \<open>y\<close>, column \<open>x\<close>; 0 outside the image.\<close>

definition sample :: "image \<Rightarrow> int \<Rightarrow> int \<Rightarrow> nat \<Rightarrow> real" where
  "sample I y x k =
     (case shape I of
        h # w # rest \<Rightarrow>
          (if 0 \<le> y \<and> y < int h \<and> 0 \<le> x \<and> x < int w
           then real (unat (pixels I ! nat y ! nat x ! k)) else 0)
      | _ \<Rightarrow> 0)"

definition bilinear :: "image \<Rightarrow> real \<Rightarrow> real \<Rightarrow> nat \<Rightarrow> real" where
  "bilinear I sy sx k =
     (let y0 = \<lfloor>sy\<rfloor>; x0 = \<lfloor>sx\<rfloor>;
          fy = sy - of_int y0; fx = sx - of_int x0
      in (1 - fy) * (1 - fx) * sample I y0 x0 k
         + (1 - fy) * fx * sample I y0 (x0 + 1) k
         + fy * (1 - fx) * sample I (y0 + 1) x0 k
         + fy * fx * sample I (y0 + 1) (x0 + 1) k)"

definition cv2_warpAffine :: "image \<Rightarrow> affine \<Rightarrow> int \<times> int \<Rightarrow> image" where
  "cv2_warpAffine I M dsize =
     (let D = m00 M * m11 M - m01 M * m10 M;
          iD = (if D \<noteq> 0 then 1 / D else 0);
          a00 = m11 M * iD; a01 = - m01 M * iD;
          a10 = - m10 M * iD; a11 = m00 M * iD;
          b0 = - a00 * m02 M - a01 * m12 M;
          b1 = - a10 * m02 M - a11 * m12 M;
          rest = drop 2 (shape I)
      in \<lparr>shape = nat (snd dsize) # nat (fst dsize) # rest,
          pixels =
            map (\<lambda>y. map (\<lambda>x. map (\<lambda>k.
                   word_of_int (round (bilinear I (a10 * real x + a11 * real y + b1)
                                                  (a00 * real x + a01 * real y + b0) k)))
                 [0..<chan_count rest]) [0..<nat (fst dsize)]) [0..<nat (snd dsize)]\<rparr>)"

text \<open>
  The filters of the library that compute on pixel values are parameters of the model,
  together with numpy's random generator: each takes the arguments the code passes and
  returns an image or raises (\<open>Inl\<close>).
\<close>

datatype ColorConversion = COLOR_RGB2GRAY | COLOR_GRAY2RGB

record library =
  cv2_filter2D :: "image \<Rightarrow> int list list \<Rightarrow> exn + image"
  cv2_GaussianBlur :: "image \<Rightarrow> int \<times> int \<Rightarrow> real \<Rightarrow> exn + image"
  cv2_addWeighted :: "image \<Rightarrow> real \<Rightarrow> image \<Rightarrow> real \<Rightarrow> real \<Rightarrow> exn + image"
  cv2_medianBlur :: "image \<Rightarrow> int \<Rightarrow> exn + image"
  cv2_bilateralFilter :: "image \<Rightarrow> int \<Rightarrow> real \<Rightarrow> real \<Rightarrow> exn + image"
  cv2_cvtColor :: "image \<Rightarrow> ColorConversion \<Rightarrow> exn + image"
  cv2_transform :: "image \<Rightarrow> real list list \<Rightarrow> exn + image"
  cv2_Sobel :: "image \<Rightarrow> int \<Rightarrow> int \<Rightarrow> int \<Rightarrow> exn + real ndarray"
  cv2_Canny :: "image \<Rightarrow> real \<Rightarrow> real \<Rightarrow> exn + image"
  cv2_resize :: "image \<Rightarrow> int \<times> int \<Rightarrow> exn + image"
  np_random_normal :: "real \<Rightarrow> real \<Rightarrow> nat list \<Rightarrow> real ndarray"
  np_random_random :: "nat list \<Rightarrow> real ndarray"

text \<open>Sequencing of calls that may raise.\<close>

definition bind_exn :: "exn + 'a \<Rightarrow> ('a \<Rightarrow> exn + 'b) \<Rightarrow> exn + 'b" where
  "bind_exn r f = (case r of Inl e \<Rightarrow> Inl e | Inr v \<Rightarrow> f v)"

subsection \<open>\<open>rotate_image\<close>\<close>

definition rotate_image :: "image \<Rightarrow> real \<Rightarrow> exn + image" where
  "rotate_image I angle =
     (if angle = 90 then Inr (cv2_rotate I ROTATE_90_CLOCKWISE)
      else if angle = 180 then Inr (cv2_rotate I ROTATE_180)
      else if angle = 270 then Inr (cv2_rotate I ROTATE_90_COUNTERCLOCKWISE)
      else
        (case shape I of
           h # w # rest \<Rightarrow>
             (let center = (int w div 2, int h div 2);
                  rotation_matrix =
                    cv2_getRotationMatrix2D (real_of_int (fst center), real_of_int (snd center))
                      angle 1;
                  cos_val = \<bar>m00 rotation_matrix\<bar>;
                  sin_val = \<bar>m01 rotation_matrix\<bar>;
                  new_w = py_int (real h * sin_val + real w * cos_val);
                  new_h = py_int (real h * cos_val + real w * sin_val);
                  rotation_matrix = rotation_matrix
                    \<lparr>m02 := m02 rotation_matrix + (real_of_int new_w / 2 - real_of_int (fst center)),
                     m12 := m12 rotation_matrix + (real_of_int new_h / 2 - real_of_int (snd center))\<rparr>
              in Inr (cv2_warpAffine I rotation_matrix (new_w, new_h)))
         | [_] \<Rightarrow> Inl (ValueError ''not enough values to unpack (expected 2, got 1)'')
         | [] \<Rightarrow> Inl (ValueError ''not enough values to unpack (expected 2, got 0)'')))"

subsection \<open>\<open>flip_image\<close>\<close>

definition flip_image :: "image \<Rightarrow> bool \<Rightarrow> exn + image" where
  "flip_image I horizontal = (if horizontal then Inr (cv2_flip I 1) else Inr (cv2_flip I 0))"

subsection \<open>\<open>adjust_brightness_contrast\<close>\<close>

definition adjust_brightness_contrast :: "image \<Rightarrow> int \<Rightarrow> real \<Rightarrow> exn + image" where
  "adjust_brightness_contrast I brightness contrast =
     (let adjusted = astype_float I;
          adjusted = map_array (\<lambda>v. v * contrast + real_of_int brightness) adjusted;
          adjusted = np_clip adjusted 0 255
      in Inr (astype_uint8 adjusted))"

subsection \<open>\<open>sharpen_image\<close>\<close>

definition laplacian_kernel :: "int list list" where
  "laplacian_kernel = [[0, -1, 0], [-1, 5, -1], [0, -1, 0]]"

definition sharpen_image :: "library \<Rightarrow> image \<Rightarrow> string \<Rightarrow> real \<Rightarrow> exn + image" where
  "sharpen_image lib I method strength =
     (if method = ''laplacian'' then
        bind_exn (cv2_filter2D lib I laplacian_kernel) (\<lambda>sharpened. Inr (clip_uint8 sharpened))
      else if method = ''unsharp_mask'' then
        bind_exn (cv2_GaussianBlur lib I (0, 0) 2) (\<lambda>gaussian.
        bind_exn (cv2_addWeighted lib I (1 + strength) gaussian (- strength) 0) (\<lambda>sharpened.
        Inr (clip_uint8 sharpened)))
      else Inr I)"

subsection \<open>\<open>add_noise\<close>\<close>

datatype NoiseType = GAUSSIAN | SALT_PEPPER

text \<open>
  \<open>h, w, c = image.shape\<close> raises \<open>ValueError\<close> unless the array has exactly three
  dimensions. \<open>np.random.normal\<close> refuses a negative standard deviation.
\<close>

definition add_noise :: "library \<Rightarrow> image \<Rightarrow> NoiseType \<Rightarrow> real \<Rightarrow> exn + image" where
  "add_noise lib I noise_type intensity =
     (case shape I of
        [h, w, c] \<Rightarrow>
          (let noisy_image = astype_float I in
           (case noise_type of
              GAUSSIAN \<Rightarrow>
                (if intensity * 255 < 0 then Inl (ValueError ''scale < 0'')
                 else
                   (let noise = np_random_normal lib 0 (intensity * 255) [h, w, c];
                        noisy_image = zip_array (\<lambda>v n. v + n) noisy_image noise
                    in Inr (astype_uint8 (np_clip noisy_image 0 255))))
            | SALT_PEPPER \<Rightarrow>
                (let noise = np_random_random lib [h, w, c];
                     noisy_image =
                       zip_array (\<lambda>v n. if n < intensity / 2 then 0 else v) noisy_image noise;
                     noisy_image =
                       zip_array (\<lambda>v n. if n > 1 - intensity / 2 then 255 else v) noisy_image noise
                 in Inr (astype_uint8 (np_clip noisy_image 0 255)))))
      | [] \<Rightarrow> Inl (ValueError ''not enough values to unpack (expected 3, got 0)'')
      | [_] \<Rightarrow> Inl (ValueError ''not enough values to unpack (expected 3, got 1)'')
      | [_, _] \<Rightarrow> Inl (ValueError ''not enough values to unpack (expected 3, got 2)'')
      | _ \<Rightarrow> Inl (ValueError ''too many values to unpack (expected 3)''))"

subsection \<open>\<open>blur_image\<close>\<close>

definition blur_image :: "library \<Rightarrow> image \<Rightarrow> string \<Rightarrow> int \<Rightarrow> exn + image" where
  "blur_image lib I blur_type kernel_size =
     (if blur_type = ''gaussian'' then cv2_GaussianBlur lib I (kernel_size, kernel_size) 0
      else if blur_type = ''median'' then cv2_medianBlur lib I kernel_size
      else if blur_type = ''bilateral'' then cv2_bilateralFilter lib I kernel_size 80 80
      else Inr I)"

subsection \<open>\<open>apply_filter\<close>\<close>

datatype FilterType = GRAYSCALE | SEPIA | INVERT | SOBEL_EDGE | CANNY_EDGE | EMBOSS

definition sepia_kernel :: "real list list" where
  "sepia_kernel =
     [[272 / 1000, 534 / 1000, 131 / 1000],
      [349 / 1000, 686 / 1000, 168 / 1000],
      [393 / 1000, 769 / 1000, 189 / 1000]]"

definition emboss_kernel :: "int list list" where
  "emboss_kernel = [[-2, -1, 0], [-1, 1, 1], [0, 1, 2]]"

text \<open>
  \<open>255 - image\<close> and \<open>embossed + 128\<close> are byte arithmetic: the sum wraps around before
  \<open>np.clip\<close> sees it.
\<close>

definition apply_filter :: "library \<Rightarrow> image \<Rightarrow> FilterType \<Rightarrow> exn + image" where
  "apply_filter lib I filter_type =
     (case filter_type of
        GRAYSCALE \<Rightarrow>
          bind_exn (cv2_cvtColor lib I COLOR_RGB2GRAY) (\<lambda>gray.
          cv2_cvtColor lib gray COLOR_GRAY2RGB)
      | SEPIA \<Rightarrow>
          bind_exn (cv2_transform lib I sepia_kernel) (\<lambda>sepia_image.
          Inr (clip_uint8 sepia_image))
      | INVERT \<Rightarrow> Inr (map_array (\<lambda>p. 255 - p) I)
      | SOBEL_EDGE \<Rightarrow>
          bind_exn (cv2_cvtColor lib I COLOR_RGB2GRAY) (\<lambda>gray.
          bind_exn (cv2_Sobel lib gray 1 0 3) (\<lambda>sobel_x.
          bind_exn (cv2_Sobel lib gray 0 1 3) (\<lambda>sobel_y.
          (let sobel = zip_array (\<lambda>a b. sqrt (a\<^sup>2 + b\<^sup>2)) sobel_x sobel_y;
               sobel = astype_uint8 (np_clip sobel 0 255)
           in cv2_cvtColor lib sobel COLOR_GRAY2RGB))))
      | CANNY_EDGE \<Rightarrow>
          bind_exn (cv2_cvtColor lib I COLOR_RGB2GRAY) (\<lambda>gray.
          bind_exn (cv2_Canny lib gray 100 200) (\<lambda>edges.
          cv2_cvtColor lib edges COLOR_GRAY2RGB))
      | EMBOSS \<Rightarrow>
          bind_exn (cv2_cvtColor lib I COLOR_RGB2GRAY) (\<lambda>gray.
          bind_exn (cv2_filter2D lib gray emboss_kernel) (\<lambda>embossed.
          (let embossed = clip_uint8 (map_array (\<lambda>p. p + 128) embossed)
           in cv2_cvtColor lib embossed COLOR_GRAY2RGB))))"

subsection \<open>\<open>resize_image\<close>\<close>

text \<open>The two float divisions raise \<open>ZeroDivisionError\<close> on a zero divisor.\<close>

definition resize_image :: "library \<Rightarrow> image \<Rightarrow> int \<Rightarrow> int \<Rightarrow> bool \<Rightarrow> exn + image" where
  "resize_image lib I width height maintain_aspect =
     (if maintain_aspect then
        (case shape I of
           h # w # rest \<Rightarrow>
             (if h = 0 then Inl (ZeroDivisionError ''division by zero'')
              else
                (let aspect_ratio = real w / real h in
                 if height = 0 then Inl (ZeroDivisionError ''division by zero'')
                 else if real_of_int width / real_of_int height > aspect_ratio then
                   (let new_height = height;
                        new_width = py_int (real_of_int height * aspect_ratio)
                    in cv2_resize lib I (new_width, new_height))
                 else if aspect_ratio = 0 then Inl (ZeroDivisionError ''float division by zero'')
                 else
                   (let new_width = width;
                        new_height = py_int (real_of_int width / aspect_ratio)
                    in cv2_resize lib I (new_width, new_height))))
         | [_] \<Rightarrow> Inl (ValueError ''not enough values to unpack (expected 2, got 1)'')
         | [] \<Rightarrow> Inl (ValueError ''not enough values to unpack (expected 2, got 0)''))
      else cv2_resize lib I (width, height))"

section \<open>The worker thread: \<open>ImageProcessingWorker\<close>\<close>

text \<open>
  The keyword arguments of a request. Every parameter the catalog reads has the type of
  the processor's signature and may be absent; \<open>kwargs.get(key, default)\<close> is \<open>get_or\<close>.
  Keys the catalog never reads have no effect and are left out.
\<close>

record kwargs =
  kw_angle :: "real option"
  kw_x :: "int option"
  kw_y :: "int option"
  kw_width :: "int option"
  kw_height :: "int option"
  kw_horizontal :: "bool option"
  kw_brightness :: "int option"
  kw_contrast :: "real option"
  kw_method :: "string option"
  kw_strength :: "real option"
  kw_noise_type :: "NoiseType option"
  kw_intensity :: "real option"
  kw_blur_type :: "string option"
  kw_kernel_size :: "int option"
  kw_filter_type :: "FilterType option"
  kw_maintain_aspect :: "bool option"

definition no_kwargs :: kwargs where
  "no_kwargs =
     \<lparr>kw_angle = None, kw_x = None, kw_y = None, kw_width = None, kw_height = None,
      kw_horizontal = None, kw_brightness = None, kw_contrast = None, kw_method = None,
      kw_strength = None, kw_noise_type = None, kw_intensity = None, kw_blur_type = None,
      kw_kernel_size = None, kw_filter_type = None, kw_maintain_aspect = None\<rparr>"

definition get_or :: "'a option \<Rightarrow> 'a \<Rightarrow> 'a" where
  "get_or v d = (case v of None \<Rightarrow> d | Some x \<Rightarrow> x)"

text \<open>
  A worker holds the snapshot of the image taken at construction (\<open>image.copy()\<close>), the
  operation name and the keyword arguments; \<open>isRunning\<close> is the state of its thread.
\<close>

record ImageProcessingWorker =
  w_image :: image
  w_operation :: string
  w_kwargs :: kwargs
  isRunning :: bool

datatype worker_signal =
    finished image
  | error string
  | progress int
  | status_update string

definition real_time_operations :: "string list" where
  "real_time_operations = [''brightness_contrast'']"

text \<open>A processor call returns an array, never \<open>None\<close>.\<close>

definition returned :: "exn + image \<Rightarrow> exn + image option" where
  "returned r = (case r of Inl e \<Rightarrow> Inl e | Inr I \<Rightarrow> Inr (Some I))"

text \<open>
  \<open>_execute_operation\<close>: the signals emitted on the way and the outcome, an exception or
  the returned value. The defaults \<open>self.image.shape[1]\<close> and \<open>self.image.shape[0]\<close> of
  crop and resize are evaluated whether or not the key is present, and raise
  \<open>IndexError\<close> on an array of fewer than two dimensions.
\<close>

definition execute_operation ::
  "library \<Rightarrow> ImageProcessingWorker \<Rightarrow> worker_signal list \<times> (exn + image option)" where
  "execute_operation lib self =
     (let I = w_image self; kw = w_kwargs self; operation = w_operation self in
      (if operation \<notin> set real_time_operations then [progress 30] else [],
       if operation = ''rotate'' then
         returned (rotate_image I (get_or (kw_angle kw) 0))
       else if operation = ''crop'' then
         (case shape I of
            h # w # rest \<Rightarrow>
              returned (crop_image I (get_or (kw_x kw) 0) (get_or (kw_y kw) 0)
                (get_or (kw_width kw) (int w)) (get_or (kw_height kw) (int h)))
          | _ \<Rightarrow> Inl (IndexError ''tuple index out of range''))
       else if operation = ''flip'' then
         returned (flip_image I (get_or (kw_horizontal kw) True))
       else if operation = ''brightness_contrast'' then
         returned (adjust_brightness_contrast I (get_or (kw_brightness kw) 0)
           (get_or (kw_contrast kw) 1))
       else if operation = ''sharpen'' then
         returned (sharpen_image lib I (get_or (kw_method kw) ''laplacian'')
           (get_or (kw_strength kw) 1))
       else if operation = ''add_noise'' then
         returned (add_noise lib I (get_or (kw_noise_type kw) GAUSSIAN)
           (get_or (kw_intensity kw) (1 / 10)))
       else if operation = ''blur'' then
         returned (blur_image lib I (get_or (kw_blur_type kw) ''gaussian'')
           (get_or (kw_kernel_size kw) 5))
       else if operation = ''filter'' then
         returned (apply_filter lib I (get_or (kw_filter_type kw) GRAYSCALE))
       else if operation = ''resize'' then
         (case shape I of
            h # w # rest \<Rightarrow>
              returned (resize_image lib I (get_or (kw_width kw) (int w))
                (get_or (kw_height kw) (int h)) (get_or (kw_maintain_aspect kw) True))
          | _ \<Rightarrow> Inl (IndexError ''tuple index out of range''))
       else Inl (ValueError (''Unknown operation: '' @ operation))))"

text \<open>
  \<open>run\<close>: the signals of one execution, in the order they are emitted. An exception
  leaves the \<open>try\<close> block at the call of \<open>_execute_operation\<close>.
\<close>

definition run :: "library \<Rightarrow> ImageProcessingWorker \<Rightarrow> worker_signal list" where
  "run lib self =
     (let operation = w_operation self;
          is_real_time = (operation \<in> set real_time_operations);
          starting =
            (if \<not> is_real_time
             then [status_update (''Starting '' @ operation @ ''...''), progress 10] else []);
          (emitted, outcome) = execute_operation lib self
      in starting @ emitted @
         (case outcome of
            Inl e \<Rightarrow> [error (''Error in '' @ operation @ '': '' @ str_of e)]
          | Inr result \<Rightarrow>
              (if \<not> is_real_time
               then [progress 90, status_update (''Finalizing '' @ operation @ ''...'')] else []) @
              (case result of
                 Some r \<Rightarrow>
                   (if \<not> is_real_time
                    then [progress 100,
                          status_update (operation @ '' completed successfully'')] else []) @
                   [finished r]
               | None \<Rightarrow> [error (''Failed to execute '' @ operation)])))"

section \<open>The dispatcher: \<open>ThreadManager\<close>\<close>

text \<open>
  What the dispatcher does that can be observed: the signals it emits and the calls it
  makes on worker threads. \<open>BatchProcessor\<close>'s signals are events of the same kind.
\<close>

datatype event =
    processing_finished image
  | processing_error string
  | processing_progress int
  | processing_status string
  | batch_finished image
  | batch_error string
  | batch_progress int string
  | thread_start ImageProcessingWorker
  | thread_terminate ImageProcessingWorker
  | thread_quit ImageProcessingWorker
  | thread_wait ImageProcessingWorker
  | thread_deleteLater ImageProcessingWorker

record ThreadManager =
  current_worker :: "ImageProcessingWorker option"
  operation_queue :: "(image \<times> string \<times> kwargs) list"
  is_processing :: bool

definition ThreadManager_init :: ThreadManager where
  "ThreadManager_init = \<lparr>current_worker = None, operation_queue = [], is_processing = False\<rparr>"

definition cleanup_worker :: "ThreadManager \<Rightarrow> event list \<times> ThreadManager" where
  "cleanup_worker self =
     (case current_worker self of
        Some w \<Rightarrow> ([thread_quit w, thread_wait w, thread_deleteLater w],
                   self\<lparr>current_worker := None\<rparr>)
      | None \<Rightarrow> ([], self))"

definition is_busy :: "ThreadManager \<Rightarrow> bool" where
  "is_busy self = is_processing self"

definition cancel_current_operation :: "ThreadManager \<Rightarrow> event list \<times> ThreadManager" where
  "cancel_current_operation self =
     (case current_worker self of
        Some w \<Rightarrow>
          (if isRunning w then
             (let (cleaned, self1) = cleanup_worker self
              in ([thread_terminate w, thread_wait w] @ cleaned @
                  [processing_status ''Operation cancelled''],
                  self1\<lparr>is_processing := False\<rparr>))
           else ([], self))
      | None \<Rightarrow> ([], self))"

text \<open>
  \<open>process_image\<close>: the value returned, the events, the new state. Constructing a worker
  from an array, a string and keyword arguments, connecting its signals and starting its
  thread raise nothing, so the \<open>except\<close> branch is not entered.
\<close>

definition process_image ::
  "ThreadManager \<Rightarrow> image \<Rightarrow> string \<Rightarrow> kwargs \<Rightarrow> bool \<times> event list \<times> ThreadManager" where
  "process_image self img operation kw =
     (if is_processing self \<and> operation \<notin> set real_time_operations then
        (False, [processing_error ''Another operation is already in progress''], self)
      else
        (let (cancelled, self1) =
               (if is_processing self then cancel_current_operation self else ([], self));
             worker = \<lparr>w_image = img, w_operation = operation, w_kwargs = kw,
                       isRunning = False\<rparr>
         in (True, cancelled @ [thread_start worker],
             self1\<lparr>current_worker := Some (worker\<lparr>isRunning := True\<rparr>),
                   is_processing := True\<rparr>)))"

text \<open>The slots of the dispatcher, with no listener of its own signals modelled.\<close>

definition on_processing_finished :: "ThreadManager \<Rightarrow> image \<Rightarrow> event list \<times> ThreadManager" where
  "on_processing_finished self result =
     (let self1 = self\<lparr>is_processing := False\<rparr>;
          (cleaned, self2) = cleanup_worker self1
      in ([processing_finished result] @ cleaned, self2))"

definition on_processing_error :: "ThreadManager \<Rightarrow> string \<Rightarrow> event list \<times> ThreadManager" where
  "on_processing_error self error_msg =
     (let self1 = self\<lparr>is_processing := False\<rparr>;
          (cleaned, self2) = cleanup_worker self1
      in ([processing_error error_msg] @ cleaned, self2))"

text \<open>Delivery of one worker signal to the slot it is connected to.\<close>

definition deliver :: "ThreadManager \<Rightarrow> worker_signal \<Rightarrow> event list \<times> ThreadManager" where
  "deliver self s =
     (case s of
        finished result \<Rightarrow> on_processing_finished self result
      | error error_msg \<Rightarrow> on_processing_error self error_msg
      | progress p \<Rightarrow> ([processing_progress p], self)
      | status_update t \<Rightarrow> ([processing_status t], self))"

fun deliver_all :: "ThreadManager \<Rightarrow> worker_signal list \<Rightarrow> event list \<times> ThreadManager" where
  "deliver_all self [] = ([], self)"
| "deliver_all self (s # ss) =
     (let (ev, self1) = deliver self s;
          (evs, self2) = deliver_all self1 ss
      in (ev @ evs, self2))"

section \<open>The batch sequencer: \<open>BatchProcessor\<close>\<close>

text \<open>
  One entry of a batch: a dictionary with the key \<open>name\<close> and, optionally, the key
  \<open>params\<close>.
\<close>

record batch_operation =
  op_name :: string
  op_params :: "kwargs option"

text \<open>
  \<open>current_image\<close> is \<open>None\<close> between construction and the first \<open>process_batch\<close>; no
  method reads it before \<open>process_batch\<close> has stored the copy of its argument, so the
  field holds an image here.
\<close>

record BatchProcessor =
  thread_manager :: ThreadManager
  operations_queue :: "batch_operation list"
  current_image :: image
  current_operation_index :: nat

text \<open>\<open>str(n)\<close> of a natural number, for the f-string of the failure message.\<close>

definition digit_char :: "nat \<Rightarrow> char" where
  "digit_char d = char_of (48 + d)"

function str_nat :: "nat \<Rightarrow> string" where
  "str_nat n = (if n < 10 then [digit_char n] else str_nat (n div 10) @ [digit_char (n mod 10)])"
  by pat_completeness auto
termination
  by (relation "measure id") auto

definition on_operation_error :: "BatchProcessor \<Rightarrow> string \<Rightarrow> event list \<times> BatchProcessor" where
  "on_operation_error self error_msg =
     ([batch_error (''Batch processing failed at operation ''
                    @ str_nat (current_operation_index self) @ '': '' @ error_msg)], self)"

text \<open>
  \<open>__init__\<close> connects the \<open>processing_error\<close> signal of the sequencer's own dispatcher to
  \<open>_on_operation_error\<close>, so the slot runs inside every \<open>emit\<close> of that signal:
  \<open>notify_errors\<close> puts the slot's events after each \<open>processing_error\<close> of a call.
\<close>

definition notify_errors :: "BatchProcessor \<Rightarrow> event list \<Rightarrow> event list" where
  "notify_errors self evs =
     concat (map (\<lambda>e. case e of
                        processing_error m \<Rightarrow> e # fst (on_operation_error self m)
                      | _ \<Rightarrow> [e]) evs)"

text \<open>
  The progress figure is \<open>int((index / len) * 100)\<close>; the division and the product are
  over the reals here.
\<close>

definition process_next_operation :: "BatchProcessor \<Rightarrow> event list \<times> BatchProcessor" where
  "process_next_operation self =
     (if current_operation_index self \<ge> length (operations_queue self) then
        ([batch_finished (current_image self)], self)
      else
        (let operation = operations_queue self ! current_operation_index self;
             operation_name = op_name operation;
             operation_params = get_or (op_params operation) no_kwargs;
             percent = py_int (real (current_operation_index self)
                               / real (length (operations_queue self)) * 100);
             (accepted, evs, tm) =
               process_image (thread_manager self) (current_image self)
                 operation_name operation_params
         in (batch_progress percent (''Processing: '' @ operation_name) # notify_errors self evs,
             self\<lparr>thread_manager := tm\<rparr>)))"

definition on_operation_finished :: "BatchProcessor \<Rightarrow> image \<Rightarrow> event list \<times> BatchProcessor" where
  "on_operation_finished self result =
     process_next_operation
       (self\<lparr>current_image := result,
             current_operation_index := current_operation_index self + 1\<rparr>)"

definition process_batch ::
  "BatchProcessor \<Rightarrow> image \<Rightarrow> batch_operation list \<Rightarrow> event list \<times> BatchProcessor" where
  "process_batch self img operations =
     (let self1 = self\<lparr>current_image := img, operations_queue := operations,
                       current_operation_index := 0\<rparr>
      in if operations = [] then ([batch_finished (current_image self1)], self1)
         else process_next_operation self1)"

text \<open>
  The slots of the sequencer's dispatcher as they run with \<open>processing_finished\<close> connected
  to \<open>_on_operation_finished\<close> and \<open>processing_error\<close> to \<open>_on_operation_error\<close>: the
  connected slot runs inside \<open>emit\<close>, before \<open>_cleanup_worker\<close>, and may have started the
  next worker by then.
\<close>

definition batch_on_processing_finished ::
  "BatchProcessor \<Rightarrow> image \<Rightarrow> event list \<times> BatchProcessor" where
  "batch_on_processing_finished self result =
     (let self1 = self\<lparr>thread_manager := (thread_manager self)\<lparr>is_processing := False\<rparr>\<rparr>;
          (evs, self2) = on_operation_finished self1 result;
          (cleaned, tm) = cleanup_worker (thread_manager self2)
      in (processing_finished result # evs @ cleaned, self2\<lparr>thread_manager := tm\<rparr>))"

definition batch_on_processing_error ::
  "BatchProcessor \<Rightarrow> string \<Rightarrow> event list \<times> BatchProcessor" where
  "batch_on_processing_error self error_msg =
     (let self1 = self\<lparr>thread_manager := (thread_manager self)\<lparr>is_processing := False\<rparr>\<rparr>;
          (evs, self2) = on_operation_error self1 error_msg;
          (cleaned, tm) = cleanup_worker (thread_manager self2)
      in (processing_error error_msg # evs @ cleaned, self2\<lparr>thread_manager := tm\<rparr>))"

definition batch_deliver :: "BatchProcessor \<Rightarrow> worker_signal \<Rightarrow> event list \<times> BatchProcessor" where
  "batch_deliver self s =
     (case s of
        finished result \<Rightarrow> batch_on_processing_finished self result
      | error error_msg \<Rightarrow> batch_on_processing_error self error_msg
      | progress p \<Rightarrow> ([processing_progress p], self)
      | status_update t \<Rightarrow> ([processing_status t], self))"

text \<open>
  The interface thread's event loop. A started worker runs to its end on its own thread
  and its signals are queued to the interface thread in the order of emission; the loop
  delivers the queued signals one at a time, and a slot that starts a worker adds that
  worker's signals to the queue. The loop returns when the queue is empty.
\<close>

definition started_workers :: "event list \<Rightarrow> ImageProcessingWorker list" where
  "started_workers evs = concat (map (\<lambda>e. case e of thread_start w \<Rightarrow> [w] | _ \<Rightarrow> []) evs)"

partial_function (option) event_loop ::
  "library \<Rightarrow> event list \<Rightarrow> BatchProcessor \<Rightarrow> worker_signal list
     \<Rightarrow> (event list \<times> BatchProcessor) option" where
  "event_loop lib acc self queue =
     (if queue = [] then Some (acc, self)
      else
        (let delivered = batch_deliver self (hd queue);
             evs = fst delivered;
             self1 = snd delivered
         in event_loop lib (acc @ evs) self1
              (tl queue @ concat (map (run lib) (started_workers evs)))))"

text \<open>\<open>run(image, operations)\<close>: the call of \<open>process_batch\<close> and the event loop after it.\<close>

definition run_batch ::
  "library \<Rightarrow> BatchProcessor \<Rightarrow> image \<Rightarrow> batch_operation list
     \<Rightarrow> (event list \<times> BatchProcessor) option" where
  "run_batch lib self img operations =
     (case process_batch self img operations of
        (evs, self1) \<Rightarrow>
          event_loop lib evs self1 (concat (map (run lib) (started_workers evs))))"

section \<open>Notions used in the statements\<close>

text \<open>The signals of a worker that only report progress, and the event each signal
  becomes at the dispatcher.\<close>

definition is_notice :: "worker_signal \<Rightarrow> bool" where
  "is_notice s = (case s of progress p \<Rightarrow> True | status_update t \<Rightarrow> True | _ \<Rightarrow> False)"

definition notice_event :: "worker_signal \<Rightarrow> event" where
  "notice_event s =
     (case s of
        progress p \<Rightarrow> processing_progress p
      | status_update t \<Rightarrow> processing_status t
      | finished r \<Rightarrow> processing_finished r
      | error m \<Rightarrow> processing_error m)"

text \<open>The message of the error signal of \<open>run\<close>, by the outcome of the operation.\<close>

definition failure_text :: "string \<Rightarrow> exn + image option \<Rightarrow> string" where
  "failure_text operation outcome =
     (case outcome of
        Inl e \<Rightarrow> ''Error in '' @ operation @ '': '' @ str_of e
      | Inr r \<Rightarrow> ''Failed to execute '' @ operation)"

text \<open>The names that \<open>_execute_operation\<close> compares the operation with.\<close>

definition operation_names :: "string list" where
  "operation_names =
     [''rotate'', ''crop'', ''flip'', ''brightness_contrast'', ''sharpen'',
      ''add_noise'', ''blur'', ''filter'', ''resize'']"

text \<open>
  The worker that the sequencer's dispatcher builds for an entry of a batch, and the
  outcome of applying the entry to an image: what \<open>_execute_operation\<close> of that worker
  returns or raises.
\<close>

definition worker_of :: "image \<Rightarrow> batch_operation \<Rightarrow> ImageProcessingWorker" where
  "worker_of img operation =
     \<lparr>w_image = img, w_operation = op_name operation,
      w_kwargs = get_or (op_params operation) no_kwargs, isRunning = False\<rparr>"

definition apply_operation :: "library \<Rightarrow> image \<Rightarrow> batch_operation \<Rightarrow> exn + image option" where
  "apply_operation lib img operation = snd (execute_operation lib (worker_of img operation))"

text \<open>The signals of the sequencer itself among the events.\<close>

definition is_batch_event :: "event \<Rightarrow> bool" where
  "is_batch_event e =
     (case e of batch_finished r \<Rightarrow> True | batch_error m \<Rightarrow> True
      | batch_progress p t \<Rightarrow> True | _ \<Rightarrow> False)"


subsection \<open>Concrete values\<close>

text \<open>A grayscale image of one white pixel, and a colour image of one row of two pixels.\<close>

definition white_pixel :: image where
  "white_pixel = \<lparr>shape = [1, 1], pixels = [[[255]]]\<rparr>"

definition two_pixels :: image where
  "two_pixels = \<lparr>shape = [1, 2, 3], pixels = [[[1, 2, 3], [4, 5, 6]]]\<rparr>"

text \<open>A library whose filters all raise and whose random arrays are empty.\<close>

definition refusing_library :: library where
  "refusing_library =
     \<lparr>cv2_filter2D = (\<lambda>I k. Inl (Cv2Error ''filter2D'')),
      cv2_GaussianBlur = (\<lambda>I k s. Inl (Cv2Error ''GaussianBlur'')),
      cv2_addWeighted = (\<lambda>I a J b g. Inl (Cv2Error ''addWeighted'')),
      cv2_medianBlur = (\<lambda>I k. Inl (Cv2Error ''medianBlur'')),
      cv2_bilateralFilter = (\<lambda>I d sc ss. Inl (Cv2Error ''bilateralFilter'')),
      cv2_cvtColor = (\<lambda>I c. Inl (Cv2Error ''cvtColor'')),
      cv2_transform = (\<lambda>I k. Inl (Cv2Error ''transform'')),
      cv2_Sobel = (\<lambda>I dx dy k. Inl (Cv2Error ''Sobel'')),
      cv2_Canny = (\<lambda>I lo hi. Inl (Cv2Error ''Canny'')),
      cv2_resize = (\<lambda>I d. Inl (Cv2Error ''resize'')),
      np_random_normal = (\<lambda>loc scale sh. \<lparr>shape = sh, pixels = []\<rparr>),
      np_random_random = (\<lambda>sh. \<lparr>shape = sh, pixels = []\<rparr>)\<rparr>"

text \<open>A dispatcher with a flip of the white pixel in flight.\<close>

definition flip_worker :: ImageProcessingWorker where
  "flip_worker =
     \<lparr>w_image = white_pixel, w_operation = ''flip'', w_kwargs = no_kwargs, isRunning = True\<rparr>"

definition busy_manager :: ThreadManager where
  "busy_manager =
     \<lparr>current_worker = Some flip_worker, operation_queue = [], is_processing = True\<rparr>"

text \<open>An RGB image of 100 rows and 100 columns.\<close>

definition hundred_square :: image where
  "hundred_square = \<lparr>shape = [100, 100, 3], pixels = replicate 100 (replicate 100 [10, 20, 30])\<rparr>"



text \<open>Entries of a batch, the row of two pixels mirrored, a sequencer as \<open>__init__\<close>
  leaves it, and a worker that crops with no parameter given.\<close>

definition flip_op :: batch_operation where
  "flip_op = \<lparr>op_name = ''flip'', op_params = None\<rparr>"

definition posterize_op :: batch_operation where
  "posterize_op = \<lparr>op_name = ''posterize'', op_params = None\<rparr>"

definition two_pixels_flipped :: image where
  "two_pixels_flipped = \<lparr>shape = [1, 2, 3], pixels = [[[4, 5, 6], [1, 2, 3]]]\<rparr>"

definition BatchProcessor_init :: BatchProcessor where
  "BatchProcessor_init =
     \<lparr>thread_manager = ThreadManager_init, operations_queue = [],
      current_image = \<lparr>shape = [], pixels = []\<rparr>, current_operation_index = 0\<rparr>"


text \<open>A dispatcher whose worker in flight has an operation name outside the catalog.\<close>

definition unknown_worker :: ImageProcessingWorker where
  "unknown_worker =
     \<lparr>w_image = white_pixel, w_operation = ''posterize'', w_kwargs = no_kwargs, isRunning = True\<rparr>"

definition unknown_manager :: ThreadManager where
  "unknown_manager =
     \<lparr>current_worker = Some unknown_worker, operation_queue = [], is_processing = True\<rparr>"

section \<open>The dispatcher's admission policy\<close>

text \<open>
  Claim C1. A submit made while an operation is in flight, for an operation that is not
  in the real-time set, returns false; the only event is the error signal telling the
  caller that another operation is in progress; no worker is created or started and
  nothing is queued: the state of the dispatcher, with its worker in flight and its
  queue, is the state before the call.
\<close>

theorem busy_rejects_non_real_time:
  assumes "is_processing m" and "operation \<notin> set real_time_operations"
  shows "process_image m img operation kw =
           (False, [processing_error ''Another operation is already in progress''], m)"
  using assms by (simp add: process_image_def)

theorem busy_rejects_non_real_time_witness:
  "is_processing busy_manager \<and> ''rotate'' \<notin> set real_time_operations \<and>
   process_image busy_manager two_pixels ''rotate'' no_kwargs =
     (False, [processing_error ''Another operation is already in progress''], busy_manager)"
  using busy_rejects_non_real_time [of busy_manager "''rotate''" two_pixels no_kwargs]
  by (simp add: busy_manager_def real_time_operations_def)



section \<open>Failures of a dispatched operation\<close>

lemma deliver_all_append:
  "deliver_all m (xs @ ys) =
     (fst (deliver_all m xs) @ fst (deliver_all (snd (deliver_all m xs)) ys),
      snd (deliver_all (snd (deliver_all m xs)) ys))"
  by (induction xs arbitrary: m) (simp_all add: split_def Let_def)

lemma deliver_all_notices:
  "list_all is_notice xs \<Longrightarrow> deliver_all m xs = (map notice_event xs, m)"
  by (induction xs arbitrary: m)
     (auto simp: is_notice_def notice_event_def deliver_def split: worker_signal.splits)

lemma execute_operation_notices: "list_all is_notice (fst (execute_operation lib w))"
  by (simp add: execute_operation_def is_notice_def Let_def)

lemma run_failure:
  assumes "\<forall>r. snd (execute_operation lib w) \<noteq> Inr (Some r)"
  shows "\<exists>ns. list_all is_notice ns \<and>
           run lib w = ns @ [error (failure_text (w_operation w) (snd (execute_operation lib w)))]"
proof (cases "snd (execute_operation lib w)")
  case (Inl e)
  then show ?thesis
    using execute_operation_notices [of lib w]
    by (cases "execute_operation lib w")
       (auto simp: run_def failure_text_def is_notice_def Let_def
             intro!: exI [of _ "(if w_operation w \<notin> set real_time_operations
               then [status_update (''Starting '' @ w_operation w @ ''...''), progress 10] else [])
               @ fst (execute_operation lib w)"])
next
  case (Inr r)
  with assms have "r = None" by (cases r) auto
  with Inr show ?thesis
    using execute_operation_notices [of lib w]
    by (cases "execute_operation lib w")
       (auto simp: run_def failure_text_def is_notice_def Let_def
             intro!: exI [of _ "(if w_operation w \<notin> set real_time_operations
               then [status_update (''Starting '' @ w_operation w @ ''...''), progress 10] else [])
               @ fst (execute_operation lib w) @
               (if w_operation w \<notin> set real_time_operations
                then [progress 90, status_update (''Finalizing '' @ w_operation w @ ''...'')] else [])"])
qed

lemma notice_event_not_finished:
  "list_all is_notice ns \<Longrightarrow> processing_finished r \<notin> set (map notice_event ns)"
  by (induction ns) (auto simp: is_notice_def notice_event_def split: worker_signal.splits)

lemma on_processing_error_idle:
  "on_processing_error m msg = (evs, m') \<Longrightarrow>
     \<not> is_processing m' \<and> current_worker m' = None \<and> processing_error msg \<in> set evs \<and>
     (\<forall>r. processing_finished r \<notin> set evs)"
  by (auto simp: on_processing_error_def cleanup_worker_def Let_def split: option.splits)

lemma idle_accepts: "\<not> is_processing m \<Longrightarrow> fst (process_image m img operation kw)"
  by (simp add: process_image_def Let_def split_def)

lemma failure_text_names: "\<exists>a b. failure_text operation outcome = a @ operation @ b"
proof (cases outcome)
  case (Inl e)
  then have "failure_text operation outcome = ''Error in '' @ operation @ ('': '' @ str_of e)"
    by (simp add: failure_text_def)
  then show ?thesis by blast
next
  case (Inr r)
  then have "failure_text operation outcome = ''Failed to execute '' @ operation @ []"
    by (simp add: failure_text_def)
  then show ?thesis by blast
qed

lemma unknown_operation:
  "w_operation w \<notin> set operation_names \<Longrightarrow>
     snd (execute_operation lib w) = Inl (ValueError (''Unknown operation: '' @ w_operation w))"
  by (simp add: execute_operation_def operation_names_def Let_def)

text \<open>
  Claim C4. When the operation of a worker fails, by an exception (an unknown operation
  name, a parameter the library refuses, any other exception of the processing) or by
  returning no image, the dispatcher that receives the worker's signals emits the error
  signal with a message that contains the operation's name, emits no result, and is
  idle afterwards, with no current worker, so that the next submit is accepted whatever
  it asks for. An operation name outside the catalog is such a failure.
\<close>

theorem failure_reported_then_idle:
  assumes "\<forall>r. snd (execute_operation lib w) \<noteq> Inr (Some r)"
    and "deliver_all m (run lib w) = (evs, m')"
  shows "processing_error (failure_text (w_operation w) (snd (execute_operation lib w))) \<in> set evs
       \<and> (\<exists>a b. failure_text (w_operation w) (snd (execute_operation lib w)) = a @ w_operation w @ b)
       \<and> (\<forall>r. processing_finished r \<notin> set evs)
       \<and> \<not> is_processing m' \<and> current_worker m' = None
       \<and> (\<forall>img operation kw. fst (process_image m' img operation kw))
       \<and> (w_operation w \<in> set operation_names \<or>
            snd (execute_operation lib w) = Inl (ValueError (''Unknown operation: '' @ w_operation w)))"
proof -
  let ?msg = "failure_text (w_operation w) (snd (execute_operation lib w))"
  from run_failure [OF assms(1)] obtain ns where
    ns: "list_all is_notice ns" and r: "run lib w = ns @ [error ?msg]" by blast
  obtain ev1 m1 where e1: "on_processing_error m ?msg = (ev1, m1)" by (cases "on_processing_error m ?msg")
  have "deliver_all m (run lib w) = (map notice_event ns @ ev1, m1)"
    using ns e1 by (simp add: r deliver_all_append deliver_all_notices deliver_def)
  with assms(2) have evs: "evs = map notice_event ns @ ev1" and m': "m' = m1" by simp_all
  from on_processing_error_idle [OF e1] notice_event_not_finished [OF ns]
  show ?thesis using failure_text_names [of "w_operation w"] idle_accepts [of m1]
      unknown_operation [of w lib]
    by (auto simp: evs m')
qed

lemma unknown_run:
  "run refusing_library unknown_worker =
     [status_update ''Starting posterize...'', progress 10, progress 30,
      error ''Error in posterize: Unknown operation: posterize'']"
  by (simp add: run_def execute_operation_def unknown_worker_def real_time_operations_def Let_def)

lemma unknown_exec:
  "snd (execute_operation refusing_library unknown_worker) =
     Inl (ValueError ''Unknown operation: posterize'')"
  by (simp add: execute_operation_def unknown_worker_def Let_def)

lemma unknown_deliver:
  "deliver_all unknown_manager (run refusing_library unknown_worker) =
     ([processing_status ''Starting posterize...'', processing_progress 10,
       processing_progress 30,
       processing_error ''Error in posterize: Unknown operation: posterize'',
       thread_quit unknown_worker, thread_wait unknown_worker,
       thread_deleteLater unknown_worker],
      ThreadManager_init)"
  by (simp add: unknown_run deliver_def on_processing_error_def cleanup_worker_def
      unknown_manager_def ThreadManager_init_def Let_def)

theorem failure_reported_then_idle_witness:
  "(\<forall>r. snd (execute_operation refusing_library unknown_worker) \<noteq> Inr (Some r)) \<and>
   deliver_all unknown_manager (run refusing_library unknown_worker) =
     ([processing_status ''Starting posterize...'', processing_progress 10,
       processing_progress 30,
       processing_error ''Error in posterize: Unknown operation: posterize'',
       thread_quit unknown_worker, thread_wait unknown_worker,
       thread_deleteLater unknown_worker],
      ThreadManager_init) \<and>
   failure_text (w_operation unknown_worker)
     (snd (execute_operation refusing_library unknown_worker)) =
     ''Error in posterize: Unknown operation: posterize'' \<and>
   \<not> is_processing ThreadManager_init \<and>
   (\<forall>img operation kw. fst (process_image ThreadManager_init img operation kw))"
proof -
  have h: "\<forall>r. snd (execute_operation refusing_library unknown_worker) \<noteq> Inr (Some r)"
    by (simp add: unknown_exec)
  have n: "w_operation unknown_worker = ''posterize''"
    by (simp add: unknown_worker_def)
  show ?thesis
    using failure_reported_then_idle [OF h unknown_deliver] unknown_deliver h
    by (simp add: unknown_exec failure_text_def n)
qed

section \<open>Identities of the catalog\<close>

lemma clip_trunc_nat:
  assumes "n < 256"
  shows "py_int (min (max (real n * 1 + real_of_int 0) 0) 255) = int n"
proof -
  have "real n \<le> 255" using assms by simp
  then have "min (max (real n) 0) 255 = real n" by simp
  then show ?thesis by (simp add: py_int_def)
qed

lemma u8_roundtrip:
  "word_of_int (py_int (min (max (real (unat (p::u8)) * 1 + real_of_int 0) 0) 255)) = p"
proof -
  have "unat p < 256" using unsigned_less [of p] by simp
  then have "py_int (min (max (real (unat p) * 1 + real_of_int 0) 0) 255) = int (unat p)"
    by (rule clip_trunc_nat)
  then show ?thesis by (simp only: word_of_int_uint of_nat_unat)
qed

text \<open>
  Claim C7. With brightness 0 and contrast 1.0, \<open>adjust_brightness_contrast\<close> returns an
  image equal to its argument, in shape and in every channel value. (A byte is a 32-bit
  float exactly, and the product with 1.0 and the sum with 0 are exact, so the real
  arithmetic of the model is the arithmetic of the code at these parameters.)
\<close>

theorem identity_brightness_contrast: "adjust_brightness_contrast I 0 1 = Inr I"
  using u8_roundtrip
  by (simp add: adjust_brightness_contrast_def astype_float_def astype_uint8_def np_clip_def
      map_array_def comp_def Let_def)


section \<open>Noise on a grayscale image\<close>

text \<open>
  Claim C10. On a two-dimensional array \<open>add_noise\<close> raises at the unpacking of the
  shape, for every noise type and intensity; a worker running \<open>add_noise\<close> on such an
  image ends with the error signal, which the dispatcher passes on as its error event,
  and emits no result.
\<close>

theorem add_noise_refuses_grayscale:
  assumes "shape I = [h, w]"
  shows "add_noise lib I noise_type intensity =
           Inl (ValueError ''not enough values to unpack (expected 3, got 2)'')
       \<and> run lib \<lparr>w_image = I, w_operation = ''add_noise'', w_kwargs = kw, isRunning = b\<rparr> =
           [status_update ''Starting add_noise...'', progress 10, progress 30,
            error ''Error in add_noise: not enough values to unpack (expected 3, got 2)'']
       \<and> fst (deliver_all m
            (run lib \<lparr>w_image = I, w_operation = ''add_noise'', w_kwargs = kw, isRunning = b\<rparr>)) =
           [processing_status ''Starting add_noise...'', processing_progress 10,
            processing_progress 30,
            processing_error ''Error in add_noise: not enough values to unpack (expected 3, got 2)'']
           @ fst (cleanup_worker (m\<lparr>is_processing := False\<rparr>))"
proof -
  have a: "add_noise lib I nt x =
           Inl (ValueError ''not enough values to unpack (expected 3, got 2)'')" for nt x
    using assms by (simp add: add_noise_def)
  have r: "run lib \<lparr>w_image = I, w_operation = ''add_noise'', w_kwargs = kw, isRunning = b\<rparr> =
           [status_update ''Starting add_noise...'', progress 10, progress 30,
            error ''Error in add_noise: not enough values to unpack (expected 3, got 2)'']"
    by (simp add: run_def execute_operation_def a returned_def real_time_operations_def Let_def)
  show ?thesis
    by (simp add: a r deliver_def on_processing_error_def Let_def split_def)
qed

theorem add_noise_refuses_grayscale_witness:
  "wf_image white_pixel \<and> shape white_pixel = [1, 1] \<and>
   add_noise refusing_library white_pixel SALT_PEPPER (1 / 2) =
     Inl (ValueError ''not enough values to unpack (expected 3, got 2)'')"
  using add_noise_refuses_grayscale [of white_pixel 1 1 refusing_library SALT_PEPPER "1 / 2"]
  by (simp add: white_pixel_def wf_image_def chan_count_def)


section \<open>Cropping\<close>

lemma slice_index_le: "slice_index n i \<le> n"
  by (auto simp: slice_index_def max_def)

lemma slice_len_le: "slice_len n a b \<le> n"
  using slice_index_le [of n b] by (simp add: slice_len_def)

lemma slice_len_exact:
  "0 \<le> a \<Longrightarrow> 0 \<le> k \<Longrightarrow> a + k \<le> int n \<Longrightarrow> slice_len n a (a + k) = nat k"
  by (auto simp: slice_len_def slice_index_def nat_add_distrib)

lemma length_py_slice: "length (py_slice xs a b) = slice_len (length xs) a b"
  using slice_index_le [of "length xs" b] by (simp add: py_slice_def slice_len_def)

lemma set_py_slice: "set (py_slice xs a b) \<subseteq> set xs"
  unfolding py_slice_def by (meson set_take_subset set_drop_subset subset_trans)

lemma py_slice_exact:
  "0 \<le> a \<Longrightarrow> 0 \<le> k \<Longrightarrow> a + k \<le> int (length xs) \<Longrightarrow>
     py_slice xs a (a + k) = take (nat k) (drop (nat a) xs)"
  by (auto simp: py_slice_def slice_index_def nat_add_distrib)

lemma wf_slice2:
  assumes "wf_image I"
  shows "wf_image (slice2 I r0 r1 c0 c1)"
proof -
  from assms obtain h w rest where sh: "shape I = h # w # rest"
    by (auto simp: wf_image_def split: list.splits)
  from assms sh have len: "length (pixels I) = h" and rest: "length rest \<le> 1"
    and rows: "\<forall>row \<in> set (pixels I). length row = w \<and> list_all (\<lambda>p. length p = chan_count rest) row"
    by (auto simp: wf_image_def list_all_iff)
  have "length (py_slice row c0 c1) = slice_len w c0 c1 \<and>
        list_all (\<lambda>p. length p = chan_count rest) (py_slice row c0 c1)"
    if "row \<in> set (py_slice (pixels I) r0 r1)" for row
  proof -
    from that set_py_slice [of "pixels I" r0 r1] have "row \<in> set (pixels I)" by blast
    with rows have l: "length row = w" and c: "\<forall>p \<in> set row. length p = chan_count rest"
      by (auto simp: list_all_iff)
    from c set_py_slice [of row c0 c1]
    have "\<forall>p \<in> set (py_slice row c0 c1). length p = chan_count rest" by blast
    with l show ?thesis by (simp add: length_py_slice list_all_iff)
  qed
  then show ?thesis
    using sh len rest
    by (simp add: wf_image_def slice2_def length_py_slice list_all_iff)
qed

lemma crop_shape:
  assumes "shape I = h # w # rest"
  shows "\<exists>J h' w'. crop_image I x y width height = Inr J \<and> shape J = h' # w' # rest \<and>
           h' \<le> h \<and> w' \<le> w \<and>
           (0 \<le> width \<longrightarrow> int w' \<le> width) \<and> (0 \<le> height \<longrightarrow> int h' \<le> height) \<and>
           (wf_image I \<longrightarrow> wf_image J)"
proof -
  define x1 where "x1 = max 0 (min x (int w))"
  define y1 where "y1 = max 0 (min y (int h))"
  define width1 where "width1 = min width (int w - x1)"
  define height1 where "height1 = min height (int h - y1)"
  let ?J = "slice2 I y1 (y1 + height1) x1 (x1 + width1)"
  have c: "crop_image I x y width height = Inr ?J"
    using assms by (simp add: crop_image_def Let_def x1_def y1_def width1_def height1_def)
  have s: "shape ?J = slice_len h y1 (y1 + height1) # slice_len w x1 (x1 + width1) # rest"
    using assms by (simp add: slice2_def)
  have x1: "0 \<le> x1" "x1 \<le> int w" and y1: "0 \<le> y1" "y1 \<le> int h"
    by (simp_all add: x1_def y1_def)
  have w1: "0 \<le> width \<longrightarrow> int (slice_len w x1 (x1 + width1)) \<le> width"
  proof
    assume "0 \<le> width"
    with x1 have "0 \<le> width1" "x1 + width1 \<le> int w" "width1 \<le> width"
      by (simp_all add: width1_def)
    with x1 show "int (slice_len w x1 (x1 + width1)) \<le> width"
      by (simp add: slice_len_exact)
  qed
  have h1: "0 \<le> height \<longrightarrow> int (slice_len h y1 (y1 + height1)) \<le> height"
  proof
    assume "0 \<le> height"
    with y1 have "0 \<le> height1" "y1 + height1 \<le> int h" "height1 \<le> height"
      by (simp_all add: height1_def)
    with y1 show "int (slice_len h y1 (y1 + height1)) \<le> height"
      by (simp add: slice_len_exact)
  qed
  show ?thesis
    using c s w1 h1 slice_len_le [of h] slice_len_le [of w] wf_slice2 [of I]
    by auto
qed

lemma crop_corner:
  assumes "shape I = [100, 100, 3]" and "wf_image I"
  shows "crop_image I 90 90 50 50 =
           Inr \<lparr>shape = [10, 10, 3],
                pixels = map (\<lambda>row. take 10 (drop 90 row)) (take 10 (drop 90 (pixels I)))\<rparr>"
proof -
  from assms have len: "length (pixels I) = 100"
    and rows: "\<forall>row \<in> set (pixels I). length row = 100"
    by (auto simp: wf_image_def list_all_iff)
  have a: "py_slice (pixels I) 90 (90 + 10) = take (nat 10) (drop (nat 90) (pixels I))"
    by (rule py_slice_exact) (simp_all add: len)
  have b: "py_slice row 90 (90 + 10) = take (nat 10) (drop (nat 90) row)"
    if "row \<in> set (pixels I)" for row
    by (rule py_slice_exact) (use that rows in simp_all)
  have c: "map (\<lambda>row. py_slice row 90 100) (take 10 (drop 90 (pixels I))) =
           map (\<lambda>row. take 10 (drop 90 row)) (take 10 (drop 90 (pixels I)))"
  proof (rule map_cong [OF refl])
    fix row assume "row \<in> set (take 10 (drop 90 (pixels I)))"
    then have "row \<in> set (pixels I)"
      by (meson in_set_takeD in_set_dropD)
    from b [OF this] show "py_slice row 90 100 = take 10 (drop 90 row)" by simp
  qed
  have l: "slice_len 100 90 (90 + 10) = nat 10"
    by (rule slice_len_exact) simp_all
  show ?thesis
    using assms(1) a c l
    by (simp add: crop_image_def slice2_def Let_def)
qed

lemma region_pixel:
  assumes "length rows = 100" and "\<forall>row \<in> set rows. length row = 100"
    and "i < 10" and "j < 10"
  shows "map (\<lambda>row. take 10 (drop 90 row)) (take 10 (drop 90 rows)) ! i ! j
           = rows ! (90 + i) ! (90 + j)"
proof -
  have "rows ! (90 + i) \<in> set rows" using assms(1,3) by simp
  with assms(2) have "length (rows ! (90 + i)) = 100" by blast
  then show ?thesis using assms(1,3,4) by simp
qed

lemma hundred_wf: "wf_image hundred_square"
  by (simp add: hundred_square_def wf_image_def chan_count_def list_all_iff)

text \<open>
  Claim C6, as stated, fails for a negative width: the slice \<open>x:x+width\<close> then counts its
  end from the right edge. On the row of two pixels, \<open>crop(0, 0, -1, 1)\<close> returns one
  column, which is wider than \<open>-1\<close>.
\<close>

theorem crop_negative_width_counterexample:
  "crop_image two_pixels 0 0 (-1) 1 = Inr \<lparr>shape = [1, 1, 3], pixels = [[[1, 2, 3]]]\<rparr> \<and>
   \<not> (int (shape \<lparr>shape = [1, 1, 3], pixels = [[[1, 2, 3 :: u8]]]\<rparr> ! 1) \<le> -1)"
  by (simp add: crop_image_def two_pixels_def slice2_def slice_len_def slice_index_def
      py_slice_def Let_def)


text \<open>
  Claim C6, amended. On an array of two or more dimensions, for all integers \<open>x\<close>, \<open>y\<close>,
  \<open>width\<close>, \<open>height\<close>, \<open>crop_image\<close> returns an image that is at most as wide and as
  high as the original, with the channels of the original; when the requested width is
  not negative the result is at most that wide, and when the requested height is not
  negative the result is at most that high; the result of cropping an array is an
  array. In particular \<open>crop(90, 90, 50, 50)\<close> on a 100 by 100 RGB image returns the 10
  by 10 region whose pixel \<open>(i, j)\<close> is the pixel \<open>(90 + i, 90 + j)\<close> of the original.
\<close>

theorem crop_within_bounds:
  "(shape I = h # w # rest \<longrightarrow>
      (\<exists>J h' w'. crop_image I x y width height = Inr J \<and> shape J = h' # w' # rest \<and>
           h' \<le> h \<and> w' \<le> w \<and>
           (0 \<le> width \<longrightarrow> int w' \<le> width) \<and> (0 \<le> height \<longrightarrow> int h' \<le> height) \<and>
           (wf_image I \<longrightarrow> wf_image J))) \<and>
   (shape I = [100, 100, 3] \<and> wf_image I \<longrightarrow>
      (\<exists>J. crop_image I 90 90 50 50 = Inr J \<and> shape J = [10, 10, 3] \<and>
           (\<forall>i<10. \<forall>j<10. pixels J ! i ! j = pixels I ! (90 + i) ! (90 + j))))"
proof (intro conjI impI)
  assume "shape I = h # w # rest"
  then show "\<exists>J h' w'. crop_image I x y width height = Inr J \<and> shape J = h' # w' # rest \<and>
           h' \<le> h \<and> w' \<le> w \<and>
           (0 \<le> width \<longrightarrow> int w' \<le> width) \<and> (0 \<le> height \<longrightarrow> int h' \<le> height) \<and>
           (wf_image I \<longrightarrow> wf_image J)"
    by (rule crop_shape)
next
  assume a: "shape I = [100, 100, 3] \<and> wf_image I"
  then have len: "length (pixels I) = 100"
    and rows: "\<forall>row \<in> set (pixels I). length row = 100"
    by (auto simp: wf_image_def list_all_iff)
  from a crop_corner [of I] region_pixel [OF len rows]
  show "\<exists>J. crop_image I 90 90 50 50 = Inr J \<and> shape J = [10, 10, 3] \<and>
           (\<forall>i<10. \<forall>j<10. pixels J ! i ! j = pixels I ! (90 + i) ! (90 + j))"
    by simp
qed

theorem crop_within_bounds_witness:
  "shape hundred_square = [100, 100, 3] \<and> wf_image hundred_square \<and>
   (0::int) \<le> 50 \<and>
   (\<exists>J h' w'. crop_image hundred_square 90 90 50 50 = Inr J \<and> shape J = [h', w', 3] \<and>
        h' \<le> 100 \<and> w' \<le> 100 \<and> int w' \<le> 50 \<and> int h' \<le> 50 \<and> wf_image J) \<and>
   (\<exists>J. crop_image hundred_square 90 90 50 50 = Inr J \<and> shape J = [10, 10, 3] \<and>
        pixels J ! 0 ! 0 = pixels hundred_square ! 90 ! 90)"
proof -
  have s: "shape hundred_square = [100, 100, 3]" by (simp add: hundred_square_def)
  from crop_within_bounds [of hundred_square 100 100 "[3]" 90 90 50 50] s hundred_wf
  show ?thesis by fastforce
qed



section \<open>Rotation\<close>
























section \<open>The batch sequencer\<close>

lemma loop_nil: "event_loop lib acc bp [] = Some (acc, bp)"
  by (subst event_loop.simps) simp

lemma loop_cons:
  "event_loop lib acc bp (s # q) =
     event_loop lib (acc @ fst (batch_deliver bp s)) (snd (batch_deliver bp s))
       (q @ concat (map (run lib) (started_workers (fst (batch_deliver bp s)))))"
  by (subst event_loop.simps) (simp add: Let_def)

lemma batch_deliver_notice:
  "is_notice s \<Longrightarrow> batch_deliver bp s = ([notice_event s], bp)"
  by (cases s) (simp_all add: is_notice_def batch_deliver_def notice_event_def)

lemma started_notice: "is_notice s \<Longrightarrow> started_workers [notice_event s] = []"
  by (cases s) (simp_all add: is_notice_def started_workers_def notice_event_def)

lemma loop_notices:
  "list_all is_notice ns \<Longrightarrow>
     event_loop lib acc bp (ns @ q) = event_loop lib (acc @ map notice_event ns) bp q"
proof (induction ns arbitrary: acc)
  case Nil
  then show ?case by simp
next
  case (Cons n ns)
  then have n: "is_notice n" and ns: "list_all is_notice ns" by simp_all
  have "event_loop lib acc bp ((n # ns) @ q) = event_loop lib (acc @ [notice_event n]) bp (ns @ q)"
    by (simp add: loop_cons batch_deliver_notice [OF n] started_notice [OF n])
  also have "\<dots> = event_loop lib ((acc @ [notice_event n]) @ map notice_event ns) bp q"
    by (rule Cons.IH [OF ns])
  finally show ?case by simp
qed

lemma run_success:
  assumes "snd (execute_operation lib w) = Inr (Some r)"
  shows "\<exists>ns. list_all is_notice ns \<and> run lib w = ns @ [finished r]"
  using assms execute_operation_notices [of lib w]
  by (cases "execute_operation lib w")
     (auto simp: run_def is_notice_def Let_def
        intro!: exI [of _ "(if w_operation w \<notin> set real_time_operations
               then [status_update (''Starting '' @ w_operation w @ ''...''), progress 10] else [])
               @ fst (execute_operation lib w) @
               (if w_operation w \<notin> set real_time_operations
                then [progress 90, status_update (''Finalizing '' @ w_operation w @ ''...''),
                      progress 100,
                      status_update (w_operation w @ '' completed successfully'')] else [])"])

lemma idle_process_image:
  "\<not> is_processing m \<Longrightarrow>
     process_image m img operation kw =
       (True,
        [thread_start \<lparr>w_image = img, w_operation = operation, w_kwargs = kw, isRunning = False\<rparr>],
        m\<lparr>current_worker :=
            Some \<lparr>w_image = img, w_operation = operation, w_kwargs = kw, isRunning = True\<rparr>,
          is_processing := True\<rparr>)"
  by (simp add: process_image_def)

lemma batch_events_notices:
  "list_all is_notice ns \<Longrightarrow> filter is_batch_event (map notice_event ns) = []"
  by (induction ns)
     (auto simp: is_notice_def notice_event_def is_batch_event_def split: worker_signal.splits)

lemma started_notices:
  "list_all is_notice ns \<Longrightarrow> started_workers (map notice_event ns) = []"
  by (induction ns)
     (auto simp: is_notice_def notice_event_def started_workers_def split: worker_signal.splits)

lemma started_append: "started_workers (xs @ ys) = started_workers xs @ started_workers ys"
  by (simp add: started_workers_def)

lemma empty_batch:
  "run_batch lib bp img [] =
     Some ([batch_finished img],
           bp\<lparr>current_image := img, operations_queue := [], current_operation_index := 0\<rparr>)"
  by (simp add: run_batch_def process_batch_def started_workers_def loop_nil Let_def)


lemma py_int_0: "py_int 0 = 0" and py_int_50: "py_int 50 = 50"
  by (simp_all add: py_int_def)

lemma notify_start: "notify_errors bp [thread_start w] = [thread_start w]"
  by (simp add: notify_errors_def)

lemma start_two:
  assumes "\<not> is_processing (thread_manager bp)"
  shows "process_batch bp img [opA, opB] =
     ([batch_progress 0 (''Processing: '' @ op_name opA), thread_start (worker_of img opA)],
      bp\<lparr>current_image := img, operations_queue := [opA, opB], current_operation_index := 0,
         thread_manager := (thread_manager bp)
           \<lparr>current_worker := Some ((worker_of img opA)\<lparr>isRunning := True\<rparr>),
            is_processing := True\<rparr>\<rparr>)"
  using assms
  by (simp add: process_batch_def process_next_operation_def idle_process_image notify_start
      worker_of_def py_int_0 Let_def)

lemma first_finished:
  assumes "operations_queue bp = [opA, opB]" and "current_operation_index bp = 0"
  shows "batch_deliver bp (finished r) =
     ([processing_finished r, batch_progress 50 (''Processing: '' @ op_name opB),
       thread_start (worker_of r opB),
       thread_quit ((worker_of r opB)\<lparr>isRunning := True\<rparr>),
       thread_wait ((worker_of r opB)\<lparr>isRunning := True\<rparr>),
       thread_deleteLater ((worker_of r opB)\<lparr>isRunning := True\<rparr>)],
      bp\<lparr>current_image := r, current_operation_index := 1,
         thread_manager := (thread_manager bp)\<lparr>current_worker := None, is_processing := True\<rparr>\<rparr>)"
  using assms
  by (simp add: batch_deliver_def batch_on_processing_finished_def on_operation_finished_def
      process_next_operation_def idle_process_image notify_start worker_of_def py_int_50
      cleanup_worker_def Let_def)

lemma second_finished:
  assumes "operations_queue bp = [opA, opB]" and "current_operation_index bp = 1"
    and "current_worker (thread_manager bp) = None"
  shows "batch_deliver bp (finished r) =
     ([processing_finished r, batch_finished r],
      bp\<lparr>current_image := r, current_operation_index := 2,
         thread_manager := (thread_manager bp)\<lparr>is_processing := False\<rparr>\<rparr>)"
  using assms
  by (simp add: batch_deliver_def batch_on_processing_finished_def on_operation_finished_def
      process_next_operation_def cleanup_worker_def Let_def)

lemma str_nat_0: "str_nat 0 = ''0''"
  by code_simp

lemma first_error:
  assumes "current_operation_index bp = 0"
    and "current_worker (thread_manager bp) = Some w"
  shows "batch_deliver bp (error msg) =
     ([processing_error msg, batch_error (''Batch processing failed at operation 0: '' @ msg),
       thread_quit w, thread_wait w, thread_deleteLater w],
      bp\<lparr>thread_manager := (thread_manager bp)\<lparr>current_worker := None, is_processing := False\<rparr>\<rparr>)"
  using assms
  by (simp add: batch_deliver_def batch_on_processing_error_def on_operation_error_def
      cleanup_worker_def Let_def str_nat_0 del: str_nat.simps)


lemma started_two: "started_workers [batch_progress p t, thread_start w] = [w]"
  by (simp add: started_workers_def)

lemma two_succeed:
  assumes idle: "\<not> is_processing (thread_manager bp)"
    and a: "apply_operation lib img opA = Inr (Some IA)"
    and b: "apply_operation lib IA opB = Inr (Some IB)"
  shows "\<exists>evs bp'. run_batch lib bp img [opA, opB] = Some (evs, bp') \<and>
           filter is_batch_event evs =
             [batch_progress 0 (''Processing: '' @ op_name opA),
              batch_progress 50 (''Processing: '' @ op_name opB), batch_finished IB] \<and>
           started_workers evs = [worker_of img opA, worker_of IA opB] \<and>
           current_image bp' = IB \<and> \<not> is_processing (thread_manager bp')"
proof -
  from run_success [of lib "worker_of img opA" IA] a obtain nsA where
    nsA: "list_all is_notice nsA" and runA: "run lib (worker_of img opA) = nsA @ [finished IA]"
    by (auto simp: apply_operation_def)
  from run_success [of lib "worker_of IA opB" IB] b obtain nsB where
    nsB: "list_all is_notice nsB" and runB: "run lib (worker_of IA opB) = nsB @ [finished IB]"
    by (auto simp: apply_operation_def)
  define evs0 where "evs0 =
    [batch_progress 0 (''Processing: '' @ op_name opA), thread_start (worker_of img opA)]"
  define bp1 where "bp1 =
    bp\<lparr>current_image := img, operations_queue := [opA, opB], current_operation_index := 0,
       thread_manager := (thread_manager bp)
         \<lparr>current_worker := Some ((worker_of img opA)\<lparr>isRunning := True\<rparr>),
          is_processing := True\<rparr>\<rparr>"
  define evs1 where "evs1 =
    [processing_finished IA, batch_progress 50 (''Processing: '' @ op_name opB),
     thread_start (worker_of IA opB),
     thread_quit ((worker_of IA opB)\<lparr>isRunning := True\<rparr>),
     thread_wait ((worker_of IA opB)\<lparr>isRunning := True\<rparr>),
     thread_deleteLater ((worker_of IA opB)\<lparr>isRunning := True\<rparr>)]"
  define bp2 where "bp2 =
    bp1\<lparr>current_image := IA, current_operation_index := 1,
        thread_manager := (thread_manager bp1)\<lparr>current_worker := None, is_processing := True\<rparr>\<rparr>"
  define evs2 where "evs2 = [processing_finished IB, batch_finished IB]"
  define bp3 where "bp3 =
    bp2\<lparr>current_image := IB, current_operation_index := 2,
        thread_manager := (thread_manager bp2)\<lparr>is_processing := False\<rparr>\<rparr>"
  have q1: "operations_queue bp1 = [opA, opB]" "current_operation_index bp1 = 0"
    by (simp_all add: bp1_def)
  have q2: "operations_queue bp2 = [opA, opB]" "current_operation_index bp2 = 1"
    "current_worker (thread_manager bp2) = None"
    by (simp_all add: bp2_def bp1_def)
  have d1: "batch_deliver bp1 (finished IA) = (evs1, bp2)"
    unfolding evs1_def bp2_def by (rule first_finished [OF q1])
  have d2: "batch_deliver bp2 (finished IB) = (evs2, bp3)"
    unfolding evs2_def bp3_def by (rule second_finished [OF q2])
  have s1: "started_workers evs1 = [worker_of IA opB]"
    by (simp add: evs1_def started_workers_def)
  have "run_batch lib bp img [opA, opB] = event_loop lib evs0 bp1 (nsA @ [finished IA])"
    using start_two [OF idle, of img opA opB]
    by (simp add: run_batch_def evs0_def bp1_def started_two runA)
  also have "\<dots> = event_loop lib (evs0 @ map notice_event nsA) bp1 [finished IA]"
    by (rule loop_notices [OF nsA])
  also have "\<dots> = event_loop lib ((evs0 @ map notice_event nsA) @ evs1) bp2 (nsB @ [finished IB])"
    by (simp add: loop_cons d1 s1 runB)
  also have "\<dots> = event_loop lib (((evs0 @ map notice_event nsA) @ evs1) @ map notice_event nsB)
                      bp2 [finished IB]"
    by (rule loop_notices [OF nsB])
  also have "\<dots> = Some ((((evs0 @ map notice_event nsA) @ evs1) @ map notice_event nsB) @ evs2, bp3)"
    by (simp add: loop_cons d2 evs2_def started_workers_def loop_nil)
  finally have r: "run_batch lib bp img [opA, opB] =
      Some ((((evs0 @ map notice_event nsA) @ evs1) @ map notice_event nsB) @ evs2, bp3)" .
  have f: "filter is_batch_event ((((evs0 @ map notice_event nsA) @ evs1) @ map notice_event nsB) @ evs2)
        = [batch_progress 0 (''Processing: '' @ op_name opA),
           batch_progress 50 (''Processing: '' @ op_name opB), batch_finished IB]"
    by (simp add: batch_events_notices [OF nsA] batch_events_notices [OF nsB]
        evs0_def evs1_def evs2_def is_batch_event_def)
  have w: "started_workers ((((evs0 @ map notice_event nsA) @ evs1) @ map notice_event nsB) @ evs2)
        = [worker_of img opA, worker_of IA opB]"
    by (simp add: started_append started_notices [OF nsA] started_notices [OF nsB] s1)
       (simp add: evs0_def evs2_def started_workers_def)
  have c: "current_image bp3 = IB" "\<not> is_processing (thread_manager bp3)"
    by (simp_all add: bp3_def)
  from r f w c show ?thesis by blast
qed

lemma first_fails:
  assumes idle: "\<not> is_processing (thread_manager bp)"
    and a: "\<forall>r. apply_operation lib img opA \<noteq> Inr (Some r)"
  shows "\<exists>evs bp'. run_batch lib bp img [opA, opB] = Some (evs, bp') \<and>
           filter is_batch_event evs =
             [batch_progress 0 (''Processing: '' @ op_name opA),
              batch_error (''Batch processing failed at operation 0: '' @
                failure_text (op_name opA) (apply_operation lib img opA))] \<and>
           started_workers evs = [worker_of img opA] \<and>
           \<not> is_processing (thread_manager bp')"
proof -
  let ?msg = "failure_text (op_name opA) (apply_operation lib img opA)"
  from run_failure [of lib "worker_of img opA"] a obtain nsA where
    nsA: "list_all is_notice nsA" and runA: "run lib (worker_of img opA) = nsA @ [error ?msg]"
    by (auto simp: apply_operation_def worker_of_def)
  define wA where "wA = (worker_of img opA)\<lparr>isRunning := True\<rparr>"
  define evs0 where "evs0 =
    [batch_progress 0 (''Processing: '' @ op_name opA), thread_start (worker_of img opA)]"
  define bp1 where "bp1 =
    bp\<lparr>current_image := img, operations_queue := [opA, opB], current_operation_index := 0,
       thread_manager := (thread_manager bp)
         \<lparr>current_worker := Some wA, is_processing := True\<rparr>\<rparr>"
  define evs1 where "evs1 =
    [processing_error ?msg, batch_error (''Batch processing failed at operation 0: '' @ ?msg),
     thread_quit wA, thread_wait wA, thread_deleteLater wA]"
  define bp2 where "bp2 =
    bp1\<lparr>thread_manager := (thread_manager bp1)\<lparr>current_worker := None, is_processing := False\<rparr>\<rparr>"
  have q1: "current_operation_index bp1 = 0" "current_worker (thread_manager bp1) = Some wA"
    by (simp_all add: bp1_def)
  have d1: "batch_deliver bp1 (error ?msg) = (evs1, bp2)"
    unfolding evs1_def bp2_def by (rule first_error [OF q1])
  have "run_batch lib bp img [opA, opB] = event_loop lib evs0 bp1 (nsA @ [error ?msg])"
    using start_two [OF idle, of img opA opB]
    by (simp add: run_batch_def evs0_def bp1_def wA_def started_two runA)
  also have "\<dots> = event_loop lib (evs0 @ map notice_event nsA) bp1 [error ?msg]"
    by (rule loop_notices [OF nsA])
  also have "\<dots> = Some ((evs0 @ map notice_event nsA) @ evs1, bp2)"
    by (simp add: loop_cons d1 evs1_def started_workers_def loop_nil)
  finally have r: "run_batch lib bp img [opA, opB] =
      Some ((evs0 @ map notice_event nsA) @ evs1, bp2)" .
  have f: "filter is_batch_event ((evs0 @ map notice_event nsA) @ evs1)
        = [batch_progress 0 (''Processing: '' @ op_name opA),
           batch_error (''Batch processing failed at operation 0: '' @ ?msg)]"
    by (simp add: batch_events_notices [OF nsA] evs0_def evs1_def is_batch_event_def)
  have w: "started_workers ((evs0 @ map notice_event nsA) @ evs1) = [worker_of img opA]"
    by (simp add: started_append started_notices [OF nsA])
       (simp add: evs0_def evs1_def started_workers_def)
  have c: "\<not> is_processing (thread_manager bp2)"
    by (simp add: bp2_def)
  from r f w c show ?thesis by blast
qed


lemma flip_there: "apply_operation refusing_library two_pixels flip_op = Inr (Some two_pixels_flipped)"
  by (simp add: apply_operation_def worker_of_def flip_op_def execute_operation_def get_or_def no_kwargs_def
      returned_def flip_image_def cv2_flip_def two_pixels_def two_pixels_flipped_def Let_def)

lemma flip_back: "apply_operation refusing_library two_pixels_flipped flip_op = Inr (Some two_pixels)"
  by (simp add: apply_operation_def worker_of_def flip_op_def execute_operation_def get_or_def no_kwargs_def
      returned_def flip_image_def cv2_flip_def two_pixels_def two_pixels_flipped_def Let_def)

lemma posterize_fails:
  "apply_operation refusing_library two_pixels posterize_op =
     Inl (ValueError ''Unknown operation: posterize'')"
  by (simp add: apply_operation_def worker_of_def posterize_op_def execute_operation_def Let_def)

lemma init_idle: "\<not> is_processing (thread_manager BatchProcessor_init)"
  by (simp add: BatchProcessor_init_def ThreadManager_init_def)

text \<open>
  Claim C3. On a sequencer whose dispatcher is idle: a run with no operation emits the
  input image at once as the result of the batch, and nothing else. When \<open>opA\<close> applied
  to the image yields \<open>IA\<close> and \<open>opB\<close> applied to \<open>IA\<close> yields \<open>IB\<close>, the run of
  \<open>[opA, opB]\<close> returns; the sequencer's signals are the two progress reports and then
  \<open>IB\<close> as the result; the workers started are the one of \<open>opA\<close> on the image and then
  the one of \<open>opB\<close> on \<open>IA\<close>. When \<open>opA\<close> fails, the run returns; the sequencer's signals
  are the first progress report and the failure of step 0, no result; and the only
  worker started is the one of \<open>opA\<close>.
\<close>

theorem batch_runs_in_order:
  assumes "\<not> is_processing (thread_manager bp)"
  shows
   "run_batch lib bp img [] =
      Some ([batch_finished img],
            bp\<lparr>current_image := img, operations_queue := [], current_operation_index := 0\<rparr>) \<and>
    (apply_operation lib img opA = Inr (Some IA) \<and> apply_operation lib IA opB = Inr (Some IB) \<longrightarrow>
       (\<exists>evs bp'. run_batch lib bp img [opA, opB] = Some (evs, bp') \<and>
           filter is_batch_event evs =
             [batch_progress 0 (''Processing: '' @ op_name opA),
              batch_progress 50 (''Processing: '' @ op_name opB), batch_finished IB] \<and>
           started_workers evs = [worker_of img opA, worker_of IA opB] \<and>
           current_image bp' = IB \<and> \<not> is_processing (thread_manager bp'))) \<and>
    ((\<forall>r. apply_operation lib img opA \<noteq> Inr (Some r)) \<longrightarrow>
       (\<exists>evs bp'. run_batch lib bp img [opA, opB] = Some (evs, bp') \<and>
           filter is_batch_event evs =
             [batch_progress 0 (''Processing: '' @ op_name opA),
              batch_error (''Batch processing failed at operation 0: '' @
                failure_text (op_name opA) (apply_operation lib img opA))] \<and>
           started_workers evs = [worker_of img opA] \<and>
           \<not> is_processing (thread_manager bp')))"
  using empty_batch [of lib bp img] two_succeed [OF assms, of lib img opA IA opB IB]
    first_fails [OF assms, of lib img opA opB]
  by blast

theorem batch_runs_in_order_witness:
  "\<not> is_processing (thread_manager BatchProcessor_init) \<and>
   apply_operation refusing_library two_pixels flip_op = Inr (Some two_pixels_flipped) \<and>
   apply_operation refusing_library two_pixels_flipped flip_op = Inr (Some two_pixels) \<and>
   (\<exists>evs bp'. run_batch refusing_library BatchProcessor_init two_pixels [flip_op, flip_op]
        = Some (evs, bp') \<and>
      filter is_batch_event evs =
        [batch_progress 0 ''Processing: flip'', batch_progress 50 ''Processing: flip'',
         batch_finished two_pixels] \<and>
      current_image bp' = two_pixels) \<and>
   (\<forall>r. apply_operation refusing_library two_pixels posterize_op \<noteq> Inr (Some r)) \<and>
   (\<exists>evs bp'. run_batch refusing_library BatchProcessor_init two_pixels [posterize_op, flip_op]
        = Some (evs, bp') \<and>
      filter is_batch_event evs =
        [batch_progress 0 ''Processing: posterize'',
         batch_error ''Batch processing failed at operation 0: Error in posterize: Unknown operation: posterize''] \<and>
      started_workers evs = [worker_of two_pixels posterize_op])"
proof -
  have f: "\<forall>r. apply_operation refusing_library two_pixels posterize_op \<noteq> Inr (Some r)"
    by (simp add: posterize_fails)
  have n: "op_name flip_op = ''flip''" "op_name posterize_op = ''posterize''"
    by (simp_all add: flip_op_def posterize_op_def)
  have t: "failure_text ''posterize'' (apply_operation refusing_library two_pixels posterize_op)
             = ''Error in posterize: Unknown operation: posterize''"
    by (simp add: posterize_fails failure_text_def)
  from batch_runs_in_order [OF init_idle, of refusing_library two_pixels flip_op two_pixels_flipped flip_op two_pixels]
    flip_there flip_back
  have a: "\<exists>evs bp'. run_batch refusing_library BatchProcessor_init two_pixels [flip_op, flip_op]
        = Some (evs, bp') \<and>
      filter is_batch_event evs =
        [batch_progress 0 ''Processing: flip'', batch_progress 50 ''Processing: flip'',
         batch_finished two_pixels] \<and>
      current_image bp' = two_pixels"
    by (simp add: n) blast
  from batch_runs_in_order [OF init_idle, of refusing_library two_pixels posterize_op _ flip_op] f
  have b: "\<exists>evs bp'. run_batch refusing_library BatchProcessor_init two_pixels [posterize_op, flip_op]
        = Some (evs, bp') \<and>
      filter is_batch_event evs =
        [batch_progress 0 ''Processing: posterize'',
         batch_error ''Batch processing failed at operation 0: Error in posterize: Unknown operation: posterize''] \<and>
      started_workers evs = [worker_of two_pixels posterize_op]"
    by (simp add: n t) blast
  from init_idle flip_there flip_back f a b show ?thesis by blast
qed

section \<open>Parameters of a request\<close>










end
